theory Spec2Isabelle
  imports Main "HOL-Library.Word"
begin

unbundle bit_operations_syntax

section \<open>The wire codec of package slsk (pkg/slsk/protocol.go)\<close>

text \<open>
  The codec is modelled function by function. Go's fixed-width integers are words, a
  Go string is a HOL \<open>string\<close> (both are sequences of 8-bit values), and a Go byte slice
  is a \<open>byte list option\<close>, where \<open>None\<close> is the \<open>nil\<close> slice: the source returns \<open>nil\<close>
  in places where an empty slice would carry the same bytes, and some properties of the
  specification speak about exactly that difference.

  Go's \<open>int\<close> is taken to be 64 bits wide (the platforms Go calls 64-bit); \<open>len\<close> of a
  slice or string is a natural number here, and every conversion \<open>int32(len(x))\<close> of
  the source is the truncating \<open>word_of_nat\<close>.

  A function of the source that returns several values returns a tuple here, with the
  \<open>error\<close> value last as an \<open>error option\<close> (\<open>None\<close> is Go's \<open>nil\<close> error). A function
  that reads from an \<open>io.Reader\<close> or writes to a \<open>*bytes.Buffer\<close> takes that state as an
  argument and returns its new value as the last component of the result.
\<close>

subsection \<open>Data\<close>

type_synonym byte = "8 word"
type_synonym int32 = "32 word"
type_synonym int64 = "64 word"

text \<open>\<open>[]byte\<close>: \<open>None\<close> is \<open>nil\<close>, \<open>Some bs\<close> a non-nil slice holding \<open>bs\<close>.\<close>

type_synonym slice = "byte list option"

definition len :: "slice \<Rightarrow> nat" where
  "len s = (case s of None \<Rightarrow> 0 | Some bs \<Rightarrow> length bs)"

definition elems :: "slice \<Rightarrow> byte list" where
  "elems s = (case s of None \<Rightarrow> [] | Some bs \<Rightarrow> bs)"

text \<open>\<open>bytes.Equal\<close>, the comparison the repository's round-trip test uses: equal
  length and equal bytes; a \<open>nil\<close> slice equals an empty one.\<close>

definition bytes_Equal :: "slice \<Rightarrow> slice \<Rightarrow> bool" where
  "bytes_Equal a b = (elems a = elems b)"

text \<open>The conversions \<open>[]byte(s)\<close> and \<open>string(b)\<close> between a string and its bytes.\<close>

definition byte_of_char :: "char \<Rightarrow> byte" where
  "byte_of_char c = word_of_nat (of_char c)"

definition char_of_byte :: "byte \<Rightarrow> char" where
  "char_of_byte b = char_of (unat b)"

definition bytes_of_string :: "string \<Rightarrow> byte list" where
  "bytes_of_string s = map byte_of_char s"

definition string_of_bytes :: "byte list \<Rightarrow> string" where
  "string_of_bytes b = map char_of_byte b"

text \<open>\<open>type MsgType int32\<close> and its constants.\<close>

type_synonym MsgType = int32

definition MsgHello :: MsgType where "MsgHello = 1"
definition MsgRoomsList :: MsgType where "MsgRoomsList = 10"
definition MsgJoinRoom :: MsgType where "MsgJoinRoom = 11"
definition MsgRoomMembers :: MsgType where "MsgRoomMembers = 12"
definition MsgFileList :: MsgType where "MsgFileList = 20"
definition MsgFileAdvert :: MsgType where "MsgFileAdvert = 21"
definition MsgGetFile :: MsgType where "MsgGetFile = 30"
definition MsgFileChunk :: MsgType where "MsgFileChunk = 31"
definition MsgTransferInit :: MsgType where "MsgTransferInit = 50"
definition MsgChat :: MsgType where "MsgChat = 40"
definition MsgPing :: MsgType where "MsgPing = 99"

text \<open>The keys of the table \<open>MsgNames\<close>: the message types that have a name.\<close>

definition MsgNames_keys :: "MsgType list" where
  "MsgNames_keys = [MsgHello, MsgRoomsList, MsgJoinRoom, MsgRoomMembers, MsgFileList,
     MsgFileAdvert, MsgGetFile, MsgFileChunk, MsgTransferInit, MsgChat, MsgPing]"

text \<open>
  The errors the codec returns. \<open>io_EOF\<close> and \<open>io_ErrUnexpectedEOF\<close> are the two errors of
  \<open>io.ReadFull\<close>; the other four are the \<open>fmt.Errorf\<close> values of the source, each with
  the number its message prints.
\<close>

datatype error =
    io_EOF
  | io_ErrUnexpectedEOF
  | InvalidMessageLength int32
  | StringTooLarge nat
  | InvalidStringLength int32
  | InvalidChunkLength int32

text \<open>The three kinds of the specification's error taxonomy.\<close>

fun is_TruncatedRead :: "error \<Rightarrow> bool" where
  "is_TruncatedRead io_EOF = True"
| "is_TruncatedRead io_ErrUnexpectedEOF = True"
| "is_TruncatedRead _ = False"

fun is_InvalidLength :: "error \<Rightarrow> bool" where
  "is_InvalidLength (InvalidMessageLength _) = True"
| "is_InvalidLength (InvalidStringLength _) = True"
| "is_InvalidLength (InvalidChunkLength _) = True"
| "is_InvalidLength _ = False"

fun is_StringTooLarge :: "error \<Rightarrow> bool" where
  "is_StringTooLarge (StringTooLarge _) = True"
| "is_StringTooLarge _ = False"

text \<open>An error value of one of these kinds: \<open>fails_with K err\<close> says that \<open>err\<close> is a
  non-nil error of kind \<open>K\<close>.\<close>

fun fails_with :: "(error \<Rightarrow> bool) \<Rightarrow> error option \<Rightarrow> bool" where
  "fails_with K None = False"
| "fails_with K (Some e) = K e"

subsection \<open>Streams and buffers\<close>

text \<open>
  A reader is a \<open>bytes.Reader\<close>, the reader of every decoder and test of the repository:
  its state is the list of bytes not read yet. A buffer is a \<open>bytes.Buffer\<close> that is only
  written to: its state is the list of bytes written so far.
\<close>

type_synonym reader = "byte list"
type_synonym buffer = "byte list"

definition NewReader :: "slice \<Rightarrow> reader" where
  "NewReader b = elems b"

text \<open>\<open>buf.Bytes()\<close> of a buffer made by \<open>new(bytes.Buffer)\<close>: \<open>nil\<close> while nothing was
  written.\<close>

definition Buffer_Bytes :: "buffer \<Rightarrow> slice" where
  "Buffer_Bytes buf = (if buf = [] then None else Some buf)"

text \<open>
  \<open>io.ReadFull(r, b)\<close> for a \<open>b\<close> of \<open>n\<close> bytes, all zero before the call. It returns the
  contents of \<open>b\<close> after the call and the error: nothing is read for \<open>n = 0\<close>; \<open>io.EOF\<close>
  when \<open>n > 0\<close> and no byte is left; \<open>io.ErrUnexpectedEOF\<close> when some bytes are left, but
  fewer than \<open>n\<close> (they are consumed).
\<close>

definition ReadFull :: "reader \<Rightarrow> nat \<Rightarrow> (byte list \<times> error option) \<times> reader" where
  "ReadFull r n =
     (if n = 0 then (([], None), r)
      else if n \<le> length r then ((take n r, None), drop n r)
      else if r = [] then ((replicate n 0, Some io_EOF), r)
      else ((r @ replicate (n - length r) 0, Some io_ErrUnexpectedEOF), []))"

subsection \<open>Fixed-width integers (encoding/binary, little endian)\<close>

definition PutUint32 :: "int32 \<Rightarrow> byte list" where
  "PutUint32 v = [ucast v, ucast (drop_bit 8 v), ucast (drop_bit 16 v), ucast (drop_bit 24 v)]"

definition Uint32 :: "byte list \<Rightarrow> int32" where
  "Uint32 b = ucast (b ! 0) OR push_bit 8 (ucast (b ! 1)) OR push_bit 16 (ucast (b ! 2))
     OR push_bit 24 (ucast (b ! 3))"

definition PutUint64 :: "int64 \<Rightarrow> byte list" where
  "PutUint64 v = [ucast v, ucast (drop_bit 8 v), ucast (drop_bit 16 v), ucast (drop_bit 24 v),
     ucast (drop_bit 32 v), ucast (drop_bit 40 v), ucast (drop_bit 48 v), ucast (drop_bit 56 v)]"

definition Uint64 :: "byte list \<Rightarrow> int64" where
  "Uint64 b = ucast (b ! 0) OR push_bit 8 (ucast (b ! 1)) OR push_bit 16 (ucast (b ! 2))
     OR push_bit 24 (ucast (b ! 3)) OR push_bit 32 (ucast (b ! 4)) OR push_bit 40 (ucast (b ! 5))
     OR push_bit 48 (ucast (b ! 6)) OR push_bit 56 (ucast (b ! 7))"

text \<open>\<open>binary.Write\<close> of a fixed-width integer into a \<open>bytes.Buffer\<close> cannot fail.\<close>

definition writeInt32 :: "buffer \<Rightarrow> int32 \<Rightarrow> error option \<times> buffer" where
  "writeInt32 buf n = (None, buf @ PutUint32 n)"

definition writeInt64 :: "buffer \<Rightarrow> int64 \<Rightarrow> error option \<times> buffer" where
  "writeInt64 buf n = (None, buf @ PutUint64 n)"

text \<open>\<open>binary.Read\<close> into an \<open>int32\<close> (\<open>int64\<close>) is \<open>io.ReadFull\<close> of 4 (8) bytes.\<close>

definition readInt32 :: "reader \<Rightarrow> (int32 \<times> error option) \<times> reader" where
  "readInt32 r =
     (case ReadFull r 4 of
        ((bs, Some err), r') \<Rightarrow> ((0, Some err), r')
      | ((bs, None), r') \<Rightarrow> ((Uint32 bs, None), r'))"

definition readInt64 :: "reader \<Rightarrow> (int64 \<times> error option) \<times> reader" where
  "readInt64 r =
     (case ReadFull r 8 of
        ((bs, Some err), r') \<Rightarrow> ((0, Some err), r')
      | ((bs, None), r') \<Rightarrow> ((Uint64 bs, None), r'))"

subsection \<open>Framing\<close>

text \<open>
  \<open>PackMessage\<close> and \<open>prefixLength\<close> return the bytes of a buffer they have written to,
  a slice that is never \<open>nil\<close>: the model returns the byte list. A reader made from
  such a slice (\<open>bytes.NewReader(packet)\<close>) is that list.
\<close>

definition prefixLength :: "byte list \<Rightarrow> byte list" where
  "prefixLength data =
     (let buf = [];
          buf = buf @ PutUint32 (word_of_nat (length data));
          buf = buf @ data
      in buf)"

definition PackMessage :: "MsgType \<Rightarrow> slice \<Rightarrow> byte list" where
  "PackMessage msg payload =
     (let buf = [];
          buf = buf @ PutUint32 msg;
          buf = (if len payload > 0 then buf @ elems payload else buf)
      in prefixLength buf)"

text \<open>\<open>remaining := int(length) - 4\<close> is computed in Go's 64-bit \<open>int\<close>.\<close>

definition ReadMessage :: "reader \<Rightarrow> (MsgType \<times> slice \<times> error option) \<times> reader" where
  "ReadMessage r =
     (case readInt32 r of
        ((length', Some err), r1) \<Rightarrow> ((0, None, Some err), r1)
      | ((length', None), r1) \<Rightarrow>
     (case readInt32 r1 of
        ((msgID, Some err), r2) \<Rightarrow> ((0, None, Some err), r2)
      | ((msgID, None), r2) \<Rightarrow>
          (let remaining = (scast length' :: int64) - 4 in
           if sint remaining < 0 then ((0, None, Some (InvalidMessageLength length')), r2)
           else if sint remaining > 0 then
             (case ReadFull r2 (nat (sint remaining)) of
                ((payload, Some err), r3) \<Rightarrow> ((0, None, Some err), r3)
              | ((payload, None), r3) \<Rightarrow> ((msgID, Some payload, None), r3))
           else ((msgID, None, None), r2))))"

subsection \<open>Strings\<close>

definition maxStringLen :: int where
  "maxStringLen = 50000000"

definition WriteString :: "buffer \<Rightarrow> string \<Rightarrow> error option \<times> buffer" where
  "WriteString buf s =
     (if int (length s) > maxStringLen then (Some (StringTooLarge (length s)), buf)
      else
        (case writeInt32 buf (word_of_nat (length s)) of
           (Some err, buf1) \<Rightarrow> (Some err, buf1)
         | (None, buf1) \<Rightarrow> (None, buf1 @ bytes_of_string s)))"

definition ReadString :: "reader \<Rightarrow> (string \<times> error option) \<times> reader" where
  "ReadString r =
     (case readInt32 r of
        ((l, Some err), r1) \<Rightarrow> (([], Some err), r1)
      | ((l, None), r1) \<Rightarrow>
          if sint l < 0 \<or> sint l > maxStringLen then (([], Some (InvalidStringLength l)), r1)
          else if l = 0 then (([], None), r1)
          else
            (case ReadFull r1 (nat (sint l)) of
               ((b, Some err), r2) \<Rightarrow> (([], Some err), r2)
             | ((b, None), r2) \<Rightarrow> ((string_of_bytes b, None), r2)))"

subsection \<open>Message encoders and decoders\<close>

text \<open>
  Every encoder discards the error of \<open>WriteString\<close> (\<open>_ = WriteString(buf, s)\<close>) and goes
  on with the buffer as that call left it. Every decoder reads from a reader of its own;
  the model returns the final state of that reader beside the decoder's results, so that
  what a decoder consumed can be stated.
\<close>

definition EncodeHello :: "string \<Rightarrow> byte list" where
  "EncodeHello username =
     (let buf = [];
          buf = snd (WriteString buf username)
      in PackMessage MsgHello (Buffer_Bytes buf))"

definition DecodeHello :: "slice \<Rightarrow> (string \<times> error option) \<times> reader" where
  "DecodeHello payload = ReadString (NewReader payload)"

definition EncodePing :: "byte list" where
  "EncodePing = PackMessage MsgPing None"

definition EncodeFileAdvert :: "string \<Rightarrow> string \<Rightarrow> int64 \<Rightarrow> byte list" where
  "EncodeFileAdvert fileID name size' =
     (let buf = [];
          buf = snd (WriteString buf fileID);
          buf = snd (WriteString buf name);
          buf = snd (writeInt64 buf size')
      in PackMessage MsgFileAdvert (Buffer_Bytes buf))"

definition DecodeFileAdvert :: "slice \<Rightarrow> (string \<times> string \<times> int64 \<times> error option) \<times> reader" where
  "DecodeFileAdvert payload =
     (case ReadString (NewReader payload) of
        ((fileID, Some err), r1) \<Rightarrow> (([], [], 0, Some err), r1)
      | ((fileID, None), r1) \<Rightarrow>
     (case ReadString r1 of
        ((name, Some err), r2) \<Rightarrow> (([], [], 0, Some err), r2)
      | ((name, None), r2) \<Rightarrow>
     (case readInt64 r2 of
        ((size', Some err), r3) \<Rightarrow> (([], [], 0, Some err), r3)
      | ((size', None), r3) \<Rightarrow> ((fileID, name, size', None), r3))))"

definition EncodeGetFile :: "string \<Rightarrow> string \<Rightarrow> int64 \<Rightarrow> byte list" where
  "EncodeGetFile transferID fileID offset =
     (let buf = [];
          buf = snd (WriteString buf transferID);
          buf = snd (WriteString buf fileID);
          buf = snd (writeInt64 buf offset)
      in PackMessage MsgGetFile (Buffer_Bytes buf))"

definition DecodeGetFile :: "slice \<Rightarrow> (string \<times> string \<times> int64 \<times> error option) \<times> reader" where
  "DecodeGetFile payload =
     (case ReadString (NewReader payload) of
        ((transferID, Some err), r1) \<Rightarrow> (([], [], 0, Some err), r1)
      | ((transferID, None), r1) \<Rightarrow>
     (case ReadString r1 of
        ((fileID, Some err), r2) \<Rightarrow> (([], [], 0, Some err), r2)
      | ((fileID, None), r2) \<Rightarrow>
     (case readInt64 r2 of
        ((offset, Some err), r3) \<Rightarrow> (([], [], 0, Some err), r3)
      | ((offset, None), r3) \<Rightarrow> ((transferID, fileID, offset, None), r3))))"

definition EncodeFileChunk :: "string \<Rightarrow> int64 \<Rightarrow> slice \<Rightarrow> byte list" where
  "EncodeFileChunk transferID offset chunk =
     (let buf = [];
          buf = snd (WriteString buf transferID);
          buf = snd (writeInt64 buf offset);
          buf = snd (writeInt32 buf (word_of_nat (len chunk)));
          buf = (if len chunk > 0 then buf @ elems chunk else buf)
      in PackMessage MsgFileChunk (Buffer_Bytes buf))"

definition DecodeFileChunk :: "slice \<Rightarrow> (string \<times> int64 \<times> slice \<times> error option) \<times> reader" where
  "DecodeFileChunk payload =
     (case ReadString (NewReader payload) of
        ((transferID, Some err), r1) \<Rightarrow> (([], 0, None, Some err), r1)
      | ((transferID, None), r1) \<Rightarrow>
     (case readInt64 r1 of
        ((offset, Some err), r2) \<Rightarrow> (([], 0, None, Some err), r2)
      | ((offset, None), r2) \<Rightarrow>
     (case readInt32 r2 of
        ((chLen, Some err), r3) \<Rightarrow> (([], 0, None, Some err), r3)
      | ((chLen, None), r3) \<Rightarrow>
          if sint chLen < 0 \<or> sint chLen > 100 * 1024 * 1024
          then (([], 0, None, Some (InvalidChunkLength chLen)), r3)
          else if chLen = 0 then ((transferID, offset, None, None), r3)
          else
            (case ReadFull r3 (nat (sint chLen)) of
               ((chunk, Some err), r4) \<Rightarrow> (([], 0, None, Some err), r4)
             | ((chunk, None), r4) \<Rightarrow> ((transferID, offset, Some chunk, None), r4)))))"

text \<open>The payload of a frame: what follows the length prefix and the type tag.\<close>

definition frame_payload :: "byte list \<Rightarrow> slice" where
  "frame_payload frame = Some (drop 8 frame)"

subsection \<open>The buffers a decoder makes\<close>

text \<open>
  The cap on the chunk length is there to keep a peer from making the decoder allocate
  a buffer of any size it names. To state what a decoder allocates, \<open>ReadString\<close> and
  \<open>DecodeFileChunk\<close> are given once more, line by line as in the source, with one more
  piece of state that is passed along: the sizes of the buffers made with \<open>make\<close> so
  far, in the order of the calls. Only the calls of \<open>make\<close> in the package's own code
  are recorded; the fixed 4 and 8 byte buffers inside \<open>binary.Read\<close> are not.
\<close>

type_synonym allocs = "nat list"

text \<open>\<open>make([]byte, n)\<close>: a buffer of \<open>n\<close> zero bytes, recorded.\<close>

definition make_bytes :: "allocs \<Rightarrow> nat \<Rightarrow> byte list \<times> allocs" where
  "make_bytes h n = (replicate n 0, h @ [n])"

text \<open>\<open>ReadString\<close>, with \<open>b := make([]byte, l)\<close> recorded.\<close>

definition ReadString_alloc ::
  "reader \<Rightarrow> allocs \<Rightarrow> ((string \<times> error option) \<times> reader) \<times> allocs" where
  "ReadString_alloc r h =
     (case readInt32 r of
        ((l, Some err), r1) \<Rightarrow> ((([], Some err), r1), h)
      | ((l, None), r1) \<Rightarrow>
          if sint l < 0 \<or> sint l > maxStringLen
          then ((([], Some (InvalidStringLength l)), r1), h)
          else if l = 0 then ((([], None), r1), h)
          else
            (case make_bytes h (nat (sint l)) of
               (b, h1) \<Rightarrow>
            (case ReadFull r1 (length b) of
               ((b, Some err), r2) \<Rightarrow> ((([], Some err), r2), h1)
             | ((b, None), r2) \<Rightarrow> (((string_of_bytes b, None), r2), h1))))"

text \<open>\<open>DecodeFileChunk\<close>, with \<open>chunk = make([]byte, chLen)\<close> recorded.\<close>

definition DecodeFileChunk_alloc ::
  "slice \<Rightarrow> allocs \<Rightarrow> ((string \<times> int64 \<times> slice \<times> error option) \<times> reader) \<times> allocs" where
  "DecodeFileChunk_alloc payload h =
     (case ReadString_alloc (NewReader payload) h of
        (((transferID, Some err), r1), h1) \<Rightarrow> ((([], 0, None, Some err), r1), h1)
      | (((transferID, None), r1), h1) \<Rightarrow>
     (case readInt64 r1 of
        ((offset, Some err), r2) \<Rightarrow> ((([], 0, None, Some err), r2), h1)
      | ((offset, None), r2) \<Rightarrow>
     (case readInt32 r2 of
        ((chLen, Some err), r3) \<Rightarrow> ((([], 0, None, Some err), r3), h1)
      | ((chLen, None), r3) \<Rightarrow>
          if sint chLen < 0 \<or> sint chLen > 100 * 1024 * 1024
          then ((([], 0, None, Some (InvalidChunkLength chLen)), r3), h1)
          else if chLen = 0 then (((transferID, offset, None, None), r3), h1)
          else
            (case make_bytes h1 (nat (sint chLen)) of
               (chunk, h2) \<Rightarrow>
            (case ReadFull r3 (length chunk) of
               ((chunk, Some err), r4) \<Rightarrow> ((([], 0, None, Some err), r4), h2)
             | ((chunk, None), r4) \<Rightarrow> (((transferID, offset, Some chunk, None), r4), h2))))))"

section \<open>Basic facts\<close>

lemma length_PutUint32: "length (PutUint32 v) = 4"
  by (simp add: PutUint32_def)

lemma length_PutUint64: "length (PutUint64 v) = 8"
  by (simp add: PutUint64_def)

subsection \<open>Little-endian encoding and decoding are inverse\<close>

lemma bit_low_byte:
  fixes v :: "'a::len word"
  shows "bit (ucast (ucast v :: byte) :: 'a word) n \<longleftrightarrow> n < 8 \<and> bit v n"
  by (auto simp: bit_ucast_iff dest: bit_imp_le_length)

lemma bit_shifted_byte:
  fixes v :: "'a::len word"
  shows "bit (push_bit k (ucast (ucast (drop_bit k v) :: byte)) :: 'a word) n
           \<longleftrightarrow> k \<le> n \<and> n < k + 8 \<and> bit v n"
  by (auto simp: bit_push_bit_iff bit_ucast_iff bit_drop_bit_eq dest: bit_imp_le_length)

lemma Uint32_PutUint32: "Uint32 (PutUint32 v) = v"
proof (rule bit_word_eqI)
  fix n :: nat
  assume "n < LENGTH(32)"
  then have "n < 8 \<or> (8 \<le> n \<and> n < 16) \<or> (16 \<le> n \<and> n < 24) \<or> (24 \<le> n \<and> n < 32)"
    by simp arith
  then show "bit (Uint32 (PutUint32 v)) n = bit v n"
    unfolding Uint32_def PutUint32_def
    by (simp add: bit_or_iff bit_low_byte bit_shifted_byte) blast
qed

lemma Uint64_PutUint64: "Uint64 (PutUint64 v) = v"
proof (rule bit_word_eqI)
  fix n :: nat
  assume "n < LENGTH(64)"
  then have "n < 8 \<or> (8 \<le> n \<and> n < 16) \<or> (16 \<le> n \<and> n < 24) \<or> (24 \<le> n \<and> n < 32)
    \<or> (32 \<le> n \<and> n < 40) \<or> (40 \<le> n \<and> n < 48) \<or> (48 \<le> n \<and> n < 56) \<or> (56 \<le> n \<and> n < 64)"
    by simp arith
  then show "bit (Uint64 (PutUint64 v)) n = bit v n"
    unfolding Uint64_def PutUint64_def
    by (simp add: bit_or_iff bit_low_byte bit_shifted_byte) blast
qed

subsection \<open>Conversions\<close>

lemma char_of_byte_of_char: "char_of_byte (byte_of_char c) = c"
  by (simp add: char_of_byte_def byte_of_char_def unat_of_nat)

lemma string_of_bytes_of_string: "string_of_bytes (bytes_of_string s) = s"
  by (simp add: string_of_bytes_def bytes_of_string_def char_of_byte_of_char map_idI)

lemma length_bytes_of_string: "length (bytes_of_string s) = length s"
  by (simp add: bytes_of_string_def)

text \<open>\<open>int(length) - 4\<close> in 64 bits never wraps around.\<close>

lemma sint_scast_sub4: "sint ((scast (l :: int32) :: int64) - 4) = sint l - 4"
  using sint_ge [of l] sint_lt [of l]
  by (simp add: sint_word_ariths sint_up_scast is_up signed_take_bit_int_eq_self)

text \<open>\<open>int32(n)\<close> keeps a length below \<open>2^31\<close>.\<close>

lemma sint_of_nat32: "n < 2 ^ 31 \<Longrightarrow> sint (word_of_nat n :: int32) = int n"
  by (simp add: signed_of_nat signed_take_bit_int_eq_self)

subsection \<open>Reading what was written\<close>

lemma PutUint32_nonempty: "PutUint32 v \<noteq> []"
  by (simp add: PutUint32_def)

lemma PutUint64_nonempty: "PutUint64 v \<noteq> []"
  by (simp add: PutUint64_def)

lemma ReadFull_prefix:
  "xs \<noteq> [] \<Longrightarrow> ReadFull (xs @ rest) (length xs) = ((xs, None), rest)"
  by (simp add: ReadFull_def)

lemma readInt32_PutUint32: "readInt32 (PutUint32 v @ rest) = ((v, None), rest)"
  using ReadFull_prefix [OF PutUint32_nonempty, of v rest]
  by (simp add: readInt32_def length_PutUint32 Uint32_PutUint32)

lemma readInt64_PutUint64: "readInt64 (PutUint64 v @ rest) = ((v, None), rest)"
  using ReadFull_prefix [OF PutUint64_nonempty, of v rest]
  by (simp add: readInt64_def length_PutUint64 Uint64_PutUint64)

lemma readInt32_enough:
  "4 \<le> length r \<Longrightarrow> readInt32 r = ((Uint32 (take 4 r), None), drop 4 r)"
  by (simp add: readInt32_def ReadFull_def)

lemma readInt32_short:
  "length r < 4 \<Longrightarrow>
   readInt32 r = ((0, Some (if r = [] then io_EOF else io_ErrUnexpectedEOF)), [])"
  by (simp add: readInt32_def ReadFull_def)

lemma WriteString_ok:
  "length s \<le> 50000000 \<Longrightarrow>
   WriteString buf s = (None, buf @ PutUint32 (word_of_nat (length s)) @ bytes_of_string s)"
  by (simp add: WriteString_def maxStringLen_def writeInt32_def)

lemma WriteString_too_large:
  "50000000 < length s \<Longrightarrow> WriteString buf s = (Some (StringTooLarge (length s)), buf)"
  by (simp add: WriteString_def maxStringLen_def)

lemma ReadString_wire:
  assumes "length s \<le> 50000000"
  shows "ReadString (PutUint32 (word_of_nat (length s)) @ bytes_of_string s @ rest)
           = ((s, None), rest)"
proof -
  have lt: "length s < 2 ^ 31" using assms by simp
  have sl: "sint (word_of_nat (length s) :: int32) = int (length s)"
    by (rule sint_of_nat32 [OF lt])
  show ?thesis
  proof (cases "s = []")
    case True
    then show ?thesis
      by (simp add: ReadString_def readInt32_PutUint32 maxStringLen_def bytes_of_string_def)
  next
    case False
    then have nz: "(word_of_nat (length s) :: int32) \<noteq> 0"
      using sl by force
    have ne: "bytes_of_string s \<noteq> []" using False by (simp add: bytes_of_string_def)
    show ?thesis
      using assms nz ReadFull_prefix [OF ne, of rest]
      by (simp add: ReadString_def readInt32_PutUint32 maxStringLen_def sl
          length_bytes_of_string string_of_bytes_of_string)
  qed
qed

subsection \<open>Slices and frames\<close>

lemma elems_simps: "elems None = []" "elems (Some bs) = bs"
  by (simp_all add: elems_def)

lemma len_simps: "len None = 0" "len (Some bs) = length bs"
  by (simp_all add: len_def)

lemma length_elems: "length (elems p) = len p"
  by (simp add: elems_def len_def split: option.splits)

lemma elems_empty_iff: "elems p = [] \<longleftrightarrow> len p = 0"
  using length_elems [of p] by (metis length_0_conv)

lemma PackMessage_layout:
  "PackMessage m p = PutUint32 (word_of_nat (4 + len p)) @ PutUint32 m @ elems p"
proof (cases "0 < len p")
  case True
  then show ?thesis
    by (simp add: PackMessage_def prefixLength_def length_PutUint32 length_elems)
next
  case False
  then have "elems p = []"
    using length_elems [of p] by simp
  with False show ?thesis
    by (simp add: PackMessage_def prefixLength_def length_PutUint32)
qed

lemma ReadMessage_frame:
  assumes "sint L = 4 + int (length bs)"
  shows "ReadMessage (PutUint32 L @ PutUint32 m @ bs @ rest)
           = ((m, if bs = [] then None else Some bs, None), rest)"
proof (cases "bs = []")
  case True
  with assms show ?thesis
    by (simp add: ReadMessage_def readInt32_PutUint32 sint_scast_sub4)
next
  case False
  with assms ReadFull_prefix [OF False, of rest] show ?thesis
    by (simp add: ReadMessage_def readInt32_PutUint32 sint_scast_sub4)
qed

lemma ReadMessage_negative:
  assumes "sint L < 4"
  shows "ReadMessage (PutUint32 L @ PutUint32 m @ rest)
           = ((0, None, Some (InvalidMessageLength L)), rest)"
  using assms by (simp add: ReadMessage_def readInt32_PutUint32 sint_scast_sub4)


subsection \<open>Payloads of the encoders, and decoding them\<close>

lemma frame_payload_PackMessage: "frame_payload (PackMessage m p) = Some (elems p)"
  by (simp add: frame_payload_def PackMessage_layout length_PutUint32)

lemma Buffer_Bytes_nonempty: "buf \<noteq> [] \<Longrightarrow> Buffer_Bytes buf = Some buf"
  by (simp add: Buffer_Bytes_def)

lemma EncodeHello_payload:
  "length username \<le> 50000000 \<Longrightarrow>
   frame_payload (EncodeHello username)
     = Some (PutUint32 (word_of_nat (length username)) @ bytes_of_string username)"
  by (simp add: EncodeHello_def WriteString_ok frame_payload_PackMessage
      Buffer_Bytes_nonempty PutUint32_nonempty elems_simps)

lemma EncodeFileAdvert_payload:
  "length fileID \<le> 50000000 \<Longrightarrow> length name \<le> 50000000 \<Longrightarrow>
   frame_payload (EncodeFileAdvert fileID name size')
     = Some (PutUint32 (word_of_nat (length fileID)) @ bytes_of_string fileID
         @ PutUint32 (word_of_nat (length name)) @ bytes_of_string name @ PutUint64 size')"
  by (simp add: EncodeFileAdvert_def WriteString_ok writeInt64_def frame_payload_PackMessage
      Buffer_Bytes_nonempty PutUint32_nonempty elems_simps)

lemma EncodeGetFile_payload:
  "length transferID \<le> 50000000 \<Longrightarrow> length fileID \<le> 50000000 \<Longrightarrow>
   frame_payload (EncodeGetFile transferID fileID offset)
     = Some (PutUint32 (word_of_nat (length transferID)) @ bytes_of_string transferID
         @ PutUint32 (word_of_nat (length fileID)) @ bytes_of_string fileID @ PutUint64 offset)"
  by (simp add: EncodeGetFile_def WriteString_ok writeInt64_def frame_payload_PackMessage
      Buffer_Bytes_nonempty PutUint32_nonempty elems_simps)

lemma EncodeFileChunk_payload:
  "length transferID \<le> 50000000 \<Longrightarrow>
   frame_payload (EncodeFileChunk transferID offset chunk)
     = Some (PutUint32 (word_of_nat (length transferID)) @ bytes_of_string transferID
         @ PutUint64 offset @ PutUint32 (word_of_nat (len chunk)) @ elems chunk)"
  using elems_empty_iff [of chunk]
  by (cases "len chunk = 0")
    (simp_all add: EncodeFileChunk_def WriteString_ok writeInt64_def writeInt32_def Let_def
      frame_payload_PackMessage Buffer_Bytes_nonempty PutUint32_nonempty elems_simps)

lemma DecodeHello_wire:
  "length username \<le> 50000000 \<Longrightarrow>
   DecodeHello (Some (PutUint32 (word_of_nat (length username)) @ bytes_of_string username @ rest))
     = ((username, None), rest)"
  by (simp add: DecodeHello_def NewReader_def elems_simps ReadString_wire)

lemma DecodeFileAdvert_wire:
  "length fileID \<le> 50000000 \<Longrightarrow> length name \<le> 50000000 \<Longrightarrow>
   DecodeFileAdvert (Some (PutUint32 (word_of_nat (length fileID)) @ bytes_of_string fileID
         @ PutUint32 (word_of_nat (length name)) @ bytes_of_string name @ PutUint64 size' @ rest))
     = ((fileID, name, size', None), rest)"
  by (simp add: DecodeFileAdvert_def NewReader_def elems_simps ReadString_wire readInt64_PutUint64)

lemma DecodeGetFile_wire:
  "length transferID \<le> 50000000 \<Longrightarrow> length fileID \<le> 50000000 \<Longrightarrow>
   DecodeGetFile (Some (PutUint32 (word_of_nat (length transferID)) @ bytes_of_string transferID
         @ PutUint32 (word_of_nat (length fileID)) @ bytes_of_string fileID @ PutUint64 offset @ rest))
     = ((transferID, fileID, offset, None), rest)"
  by (simp add: DecodeGetFile_def NewReader_def elems_simps ReadString_wire readInt64_PutUint64)

text \<open>\<open>DecodeFileChunk\<close> after a well-formed transfer id and offset: what is left is the
  decision on the chunk length.\<close>

lemma DecodeFileChunk_wire:
  "length transferID \<le> 50000000 \<Longrightarrow>
   DecodeFileChunk (Some (PutUint32 (word_of_nat (length transferID)) @ bytes_of_string transferID
         @ PutUint64 offset @ PutUint32 chLen @ rest))
     = (if sint chLen < 0 \<or> sint chLen > 104857600
        then (([], 0, None, Some (InvalidChunkLength chLen)), rest)
        else if chLen = 0 then ((transferID, offset, None, None), rest)
        else
          (case ReadFull rest (nat (sint chLen)) of
             ((chunk, Some err), r4) \<Rightarrow> (([], 0, None, Some err), r4)
           | ((chunk, None), r4) \<Rightarrow> ((transferID, offset, Some chunk, None), r4)))"
  by (simp add: DecodeFileChunk_def NewReader_def elems_simps ReadString_wire
      readInt64_PutUint64 readInt32_PutUint32)

subsection \<open>A length truncated to \<open>int32\<close>\<close>

lemma sint_of_nat32_mod:
  "sint (word_of_nat n :: int32)
     = (if n mod 2 ^ 32 < 2 ^ 31 then int (n mod 2 ^ 32) else int (n mod 2 ^ 32) - 2 ^ 32)"
proof -
  define m where "m = n mod 2 ^ 32"
  have m: "m < 2 ^ 32" by (simp add: m_def)
  have eq: "(word_of_nat n :: int32) = word_of_nat m"
    by (simp add: m_def word_of_nat_eq_iff take_bit_eq_mod)
  show ?thesis
  proof (cases "m < 2 ^ 31")
    case True
    then show ?thesis
      using sint_of_nat32 [of m] by (simp add: eq m_def)
  next
    case False
    have "sint (word_of_nat m :: int32) = (int m + 2 ^ 31) mod 2 ^ 32 - 2 ^ 31"
      by (simp add: signed_of_nat signed_take_bit_eq_take_bit_shift take_bit_eq_mod)
    also have "(int m + 2 ^ 31) mod 2 ^ 32 = (int m + 2 ^ 31 - 2 ^ 32) mod 2 ^ 32"
      using minus_mod_self2 [of "int m + 2 ^ 31" "2 ^ 32"] by simp
    also have "\<dots> = int m + 2 ^ 31 - 2 ^ 32"
      using False m by (intro mod_pos_pos_trivial) simp_all
    finally show ?thesis
      using False by (simp add: eq m_def)
  qed
qed

lemma sint_of_nat32_over:
  assumes "104857600 < n mod 2 ^ 32"
  shows "sint (word_of_nat n :: int32) < 0 \<or> 104857600 < sint (word_of_nat n :: int32)"
  using assms by (simp add: sint_of_nat32_mod)

subsection \<open>The buffers a decoder makes\<close>

text \<open>Recording the buffers changes no result.\<close>

lemma ReadString_alloc_result: "fst (ReadString_alloc r h) = ReadString r"
  by (simp add: ReadString_alloc_def ReadString_def make_bytes_def
      split: prod.splits option.splits)

lemma DecodeFileChunk_alloc_result: "fst (DecodeFileChunk_alloc payload h) = DecodeFileChunk payload"
proof -
  obtain res h1 where rs: "ReadString_alloc (NewReader payload) h = (res, h1)"
    by (cases "ReadString_alloc (NewReader payload) h")
  then have "ReadString (NewReader payload) = res"
    using ReadString_alloc_result [of "NewReader payload" h] by simp
  with rs show ?thesis
    by (simp add: DecodeFileChunk_alloc_def DecodeFileChunk_def make_bytes_def
        split: prod.splits option.splits)
qed

lemma ReadString_alloc_wire:
  assumes "length s \<le> 50000000"
  shows "ReadString_alloc (PutUint32 (word_of_nat (length s)) @ bytes_of_string s @ rest) h
           = (((s, None), rest), h @ (if s = [] then [] else [length s]))"
proof -
  have lt: "length s < 2 ^ 31" using assms by simp
  have sl: "sint (word_of_nat (length s) :: int32) = int (length s)"
    by (rule sint_of_nat32 [OF lt])
  show ?thesis
  proof (cases "s = []")
    case True
    then show ?thesis
      by (simp add: ReadString_alloc_def readInt32_PutUint32 maxStringLen_def bytes_of_string_def)
  next
    case False
    then have nz: "(word_of_nat (length s) :: int32) \<noteq> 0"
      using sl by force
    have ne: "bytes_of_string s \<noteq> []" using False by (simp add: bytes_of_string_def)
    show ?thesis
      using assms nz False ReadFull_prefix [OF ne, of rest]
      by (simp add: ReadString_alloc_def readInt32_PutUint32 maxStringLen_def sl make_bytes_def
          length_bytes_of_string string_of_bytes_of_string)
  qed
qed

lemma DecodeFileChunk_alloc_wire:
  "length transferID \<le> 50000000 \<Longrightarrow>
   DecodeFileChunk_alloc (Some (PutUint32 (word_of_nat (length transferID))
         @ bytes_of_string transferID @ PutUint64 offset @ PutUint32 chLen @ rest)) h
     = (let h1 = h @ (if transferID = [] then [] else [length transferID]) in
        if sint chLen < 0 \<or> sint chLen > 104857600
        then ((([], 0, None, Some (InvalidChunkLength chLen)), rest), h1)
        else if chLen = 0 then (((transferID, offset, None, None), rest), h1)
        else
          (case ReadFull rest (nat (sint chLen)) of
             ((chunk, Some err), r4) \<Rightarrow> ((([], 0, None, Some err), r4), h1 @ [nat (sint chLen)])
           | ((chunk, None), r4) \<Rightarrow>
               (((transferID, offset, Some chunk, None), r4), h1 @ [nat (sint chLen)])))"
  by (simp add: DecodeFileChunk_alloc_def NewReader_def elems_simps ReadString_alloc_wire
      readInt64_PutUint64 readInt32_PutUint32 make_bytes_def Let_def)

text \<open>On a well-formed payload with a chunk of three bytes, the decoder makes the buffer
  for the transfer id and then the buffer for the chunk.\<close>

lemma DecodeFileChunk_alloc_makes_chunk:
  "DecodeFileChunk_alloc (Some (snd (WriteString [] ''tx'') @ PutUint64 7
            @ PutUint32 3 @ [1, 2, 3])) []
     = (((''tx'', 7, Some [1, 2, 3], None), []), [2, 3])"
  using DecodeFileChunk_alloc_wire [of "''tx''" 7 3 "[1, 2, 3]" "[]"]
  by (simp add: WriteString_ok ReadFull_def)

section \<open>The properties of the specification\<close>

subsection \<open>Frames\<close>

text \<open>
  C9 (wire layout of \<open>PackMessage\<close>). For every message type and every payload,
  \<open>PackMessage\<close> returns exactly these bytes: the 4 little-endian bytes of the length
  \<open>int32(4 + len(payload))\<close>, which as an unsigned number is \<open>4 + len(payload)\<close> modulo
  \<open>2^32\<close>; then the 4 little-endian bytes of the type; then the bytes of the payload
  unchanged. The frame has \<open>8 + len(payload)\<close> bytes. \<open>PackMessage\<close> is a total function
  with no error result: it accepts a payload of any size.
\<close>

theorem C9_PackMessage_layout:
  "PackMessage msg payload
     = PutUint32 (word_of_nat (4 + len payload)) @ PutUint32 msg @ elems payload
 \<and> unat (word_of_nat (4 + len payload) :: int32) = (4 + len payload) mod 2 ^ 32
 \<and> length (PackMessage msg payload) = 8 + len payload"
  using unat_of_nat [where 'a = 32, of "4 + len payload"]
  by (simp add: PackMessage_layout length_PutUint32 length_elems)

text \<open>
  The length field holds \<open>4 + len(payload)\<close> itself only while that number fits in 32
  bits: for a payload of \<open>2^32 - 4\<close> bytes the four bytes of the length field are zero.
\<close>

theorem C9_counterexample:
  "4 + len (Some (replicate 4294967292 0)) = 4294967296
 \<and> take 4 (PackMessage MsgHello (Some (replicate 4294967292 0))) = [0, 0, 0, 0]
 \<and> Uint32 [0, 0, 0, 0] = 0"
proof -
  have wrap: "(4294967296 :: int32) = 0" by simp
  show ?thesis
    by (simp add: PackMessage_layout len_simps length_PutUint32 wrap PutUint32_def Uint32_def)
qed

text \<open>
  C1 (frame round trip). \<open>PackMessage\<close> stores the frame length with \<open>int32(len(data))\<close>
  and \<open>ReadMessage\<close> reads it back as a signed \<open>int32\<close>. For every message type \<open>m\<close> and
  every payload \<open>p\<close> with \<open>4 + len(p) \<le> 2^31 - 1\<close>, the empty and the \<open>nil\<close> payload
  included, \<open>ReadMessage\<close> of the frame \<open>PackMessage(m, p)\<close> returns no error, the type
  \<open>m\<close> and a payload with exactly the bytes of \<open>p\<close> (equal by \<open>bytes.Equal\<close>; it is
  the \<open>nil\<close> slice when \<open>p\<close> has no bytes), and leaves nothing unread.
\<close>

theorem C1_frame_round_trip:
  assumes "4 + len p < 2 ^ 31"
  shows "ReadMessage (PackMessage m p)
           = ((m, if len p = 0 then None else Some (elems p), None), [])
       \<and> bytes_Equal (if len p = 0 then None else Some (elems p)) p"
proof -
  have "sint (word_of_nat (4 + len p) :: int32) = 4 + int (length (elems p))"
    using sint_of_nat32 [OF assms] by (simp add: length_elems)
  from ReadMessage_frame [OF this, of m "[]"] elems_empty_iff [of p] show ?thesis
    by (auto simp: PackMessage_layout bytes_Equal_def elems_simps)
qed

text \<open>The message of the repository's round-trip test, a frame without payload, and a
  frame whose payload is the empty, non-nil slice.\<close>

theorem C1_frame_round_trip_witness:
  "ReadMessage (PackMessage MsgHello (Some (bytes_of_string ''hello world'')))
     = ((MsgHello, Some (bytes_of_string ''hello world''), None), [])
   \<and> ReadMessage (PackMessage MsgPing None) = ((MsgPing, None, None), [])
   \<and> ReadMessage (PackMessage MsgPing (Some [])) = ((MsgPing, None, None), [])
   \<and> bytes_Equal None (Some [])"
  using C1_frame_round_trip [of "Some (bytes_of_string ''hello world'')" MsgHello]
    C1_frame_round_trip [of None MsgPing] C1_frame_round_trip [of "Some []" MsgPing]
  by (simp add: len_def elems_def bytes_of_string_def)

text \<open>
  Without the bound the round trip fails: a payload of \<open>2^31 - 4\<close> bytes gets the length
  prefix \<open>int32(2^31) = -2^31\<close>, and \<open>ReadMessage\<close> rejects the frame that \<open>PackMessage\<close>
  made as having an invalid message length.
\<close>

theorem C1_counterexample:
  "len (Some (replicate 2147483644 0)) = 2147483644
   \<and> ReadMessage (PackMessage MsgHello (Some (replicate 2147483644 0)))
       = ((0, None, Some (InvalidMessageLength (- 2147483648))), replicate 2147483644 0)"
proof -
  have "sint (word_of_nat (4 + len (Some (replicate 2147483644 0))) :: int32) < 4"
    by (simp add: len_def)
  from ReadMessage_negative [OF this, of MsgHello "replicate 2147483644 0"]
  show ?thesis
    by (simp add: PackMessage_layout len_def elems_def)
qed

text \<open>
  C4 (error contract of \<open>ReadMessage\<close>). \<open>ReadMessage\<close> reads the length \<open>L\<close>, then the
  type tag, and only then checks \<open>L\<close>. For every input stream: with fewer than the 8
  bytes of length and type tag it fails with a truncated read; with those 8 bytes
  present and \<open>L < 4\<close> it fails with the invalid-message-length error; with \<open>L \<ge> 4\<close> and
  fewer than \<open>L - 4\<close> bytes after the type tag it fails with a truncated read. In every
  failure it returns the type 0 and the \<open>nil\<close> payload, never a part of a message.
\<close>

theorem C4_ReadMessage_errors:
  "case ReadMessage r of ((msg, payload, err), r') \<Rightarrow>
     (length r < 8 \<longrightarrow> fails_with is_TruncatedRead err)
   \<and> (8 \<le> length r \<and> sint (Uint32 (take 4 r)) < 4 \<longrightarrow>
        err = Some (InvalidMessageLength (Uint32 (take 4 r))) \<and> fails_with is_InvalidLength err)
   \<and> (8 \<le> length r \<and> 4 \<le> sint (Uint32 (take 4 r))
        \<and> int (length r) - 8 < sint (Uint32 (take 4 r)) - 4 \<longrightarrow>
        fails_with is_TruncatedRead err)
   \<and> (err \<noteq> None \<longrightarrow> msg = 0 \<and> payload = None)"
proof -
  consider "length r < 4" | "4 \<le> length r" "length r < 8" | "8 \<le> length r"
    by linarith
  then show ?thesis
  proof cases
    case 1
    then show ?thesis
      by (simp add: ReadMessage_def readInt32_short)
  next
    case 2
    then have "length (drop 4 r) < 4" by simp
    from readInt32_short [OF this] 2 show ?thesis
      by (simp add: ReadMessage_def readInt32_enough)
  next
    case 3
    then have "4 \<le> length r" and "4 \<le> length (drop 4 r)" by simp_all
    from readInt32_enough [OF this(1)] readInt32_enough [OF this(2)] 3 show ?thesis
      by (auto simp: ReadMessage_def sint_scast_sub4 ReadFull_def Let_def)
  qed
qed

text \<open>The three-byte packet of the repository's test, a frame that declares the length
  1, and a frame that declares two payload bytes and holds one.\<close>

theorem C4_ReadMessage_errors_witness:
  "fails_with is_TruncatedRead (snd (snd (fst (ReadMessage [1, 0, 0]))))
 \<and> fst (ReadMessage [1, 0, 0, 0, 1, 0, 0, 0]) = (0, None, Some (InvalidMessageLength 1))
 \<and> fails_with is_TruncatedRead (snd (snd (fst (ReadMessage [6, 0, 0, 0, 1, 0, 0, 0, 9]))))
 \<and> fst (fst (ReadMessage [6, 0, 0, 0, 1, 0, 0, 0, 9])) = 0
 \<and> fst (snd (fst (ReadMessage [6, 0, 0, 0, 1, 0, 0, 0, 9]))) = None"
  using C4_ReadMessage_errors [of "[1, 0, 0]"]
    C4_ReadMessage_errors [of "[1, 0, 0, 0, 1, 0, 0, 0]"]
    C4_ReadMessage_errors [of "[6, 0, 0, 0, 1, 0, 0, 0, 9]"]
  by (auto simp: Uint32_def split: prod.splits)

text \<open>
  A declared length below 4 alone does not give the invalid-length error: on the four
  bytes \<open>01 00 00 00\<close> the length read is 1, the read of the type tag finds no byte, and
  \<open>ReadMessage\<close> fails with \<open>io.EOF\<close>.
\<close>

theorem C4_counterexample:
  "sint (Uint32 (take 4 [1, 0, 0, 0])) < 4
 \<and> ReadMessage [1, 0, 0, 0] = ((0, None, Some io_EOF), [])
 \<and> \<not> fails_with is_InvalidLength (Some io_EOF)"
  by (simp add: Uint32_def ReadMessage_def readInt32_enough readInt32_short)

text \<open>
  C5 (what \<open>ReadMessage\<close> returns on success). Whenever \<open>ReadMessage\<close> returns no error,
  the stream held at least 8 bytes and the type returned is the number in bytes 4 to 7,
  whether or not a message type of that number is declared. When the declared length
  is 4 and the 8 bytes are there, \<open>ReadMessage\<close> succeeds and the payload it returns is
  the \<open>nil\<close> slice, of length 0; nothing after the type tag is read.
\<close>

theorem C5_ReadMessage_success:
  "(snd (snd (fst (ReadMessage r))) = None \<longrightarrow>
      8 \<le> length r \<and> fst (fst (ReadMessage r)) = Uint32 (take 4 (drop 4 r)))
 \<and> (8 \<le> length r \<and> Uint32 (take 4 r) = 4 \<longrightarrow>
      ReadMessage r = ((Uint32 (take 4 (drop 4 r)), None, None), drop 8 r)
    \<and> len None = 0)"
proof -
  consider "length r < 4" | "4 \<le> length r" "length r < 8" | "8 \<le> length r"
    by linarith
  then show ?thesis
  proof cases
    case 1
    then show ?thesis
      by (simp add: ReadMessage_def readInt32_short)
  next
    case 2
    then have "length (drop 4 r) < 4" by simp
    from readInt32_short [OF this] 2 show ?thesis
      by (simp add: ReadMessage_def readInt32_enough)
  next
    case 3
    then have "4 \<le> length r" and "4 \<le> length (drop 4 r)" by simp_all
    from readInt32_enough [OF this(1)] readInt32_enough [OF this(2)] 3 show ?thesis
      by (auto simp: ReadMessage_def sint_scast_sub4 ReadFull_def Let_def len_simps)
  qed
qed

text \<open>The type tag 7, which no constant of the package has, without and with a
  payload byte.\<close>

theorem C5_ReadMessage_success_witness:
  "ReadMessage [4, 0, 0, 0, 7, 0, 0, 0] = ((7, None, None), [])
 \<and> 7 \<notin> set MsgNames_keys
 \<and> snd (snd (fst (ReadMessage [5, 0, 0, 0, 7, 0, 0, 0, 9]))) = None
 \<and> fst (fst (ReadMessage [5, 0, 0, 0, 7, 0, 0, 0, 9])) = 7"
  using C5_ReadMessage_success [of "[4, 0, 0, 0, 7, 0, 0, 0]"]
    C5_ReadMessage_success [of "[5, 0, 0, 0, 7, 0, 0, 0, 9]"]
  by (simp add: Uint32_def ReadMessage_def readInt32_enough sint_scast_sub4 ReadFull_def
      MsgNames_keys_def MsgHello_def MsgRoomsList_def MsgJoinRoom_def
      MsgRoomMembers_def MsgFileList_def MsgFileAdvert_def MsgGetFile_def MsgFileChunk_def
      MsgTransferInit_def MsgChat_def MsgPing_def)

text \<open>
  For a frame of declared length 4 the payload returned is \<open>nil\<close>, Go's marker of an
  absent slice, and not an empty non-nil slice.
\<close>

theorem C5_counterexample:
  "Uint32 (take 4 [4, 0, 0, 0, 7, 0, 0, 0]) = 4
 \<and> ReadMessage [4, 0, 0, 0, 7, 0, 0, 0] = ((7, None, None), [])
 \<and> (None :: slice) \<noteq> Some []"
  by (simp add: Uint32_def ReadMessage_def readInt32_enough sint_scast_sub4)

subsection \<open>Strings on the wire\<close>

text \<open>
  C2 (string round trip and the cap when encoding). For every string \<open>s\<close> of at most
  50,000,000 bytes \<open>WriteString\<close> returns no error, keeps what the buffer held and
  appends bytes from which \<open>ReadString\<close> returns \<open>s\<close> with no error, consuming exactly
  those bytes. For every string of more than 50,000,000 bytes \<open>WriteString\<close> returns
  the string-too-large error and leaves the buffer as it was.
\<close>

theorem C2_string_round_trip:
  "(length s \<le> 50000000 \<longrightarrow>
      fst (WriteString buf s) = None
    \<and> take (length buf) (snd (WriteString buf s)) = buf
    \<and> ReadString (drop (length buf) (snd (WriteString buf s)) @ rest) = ((s, None), rest))
 \<and> (50000000 < length s \<longrightarrow>
      WriteString buf s = (Some (StringTooLarge (length s)), buf)
    \<and> fails_with is_StringTooLarge (fst (WriteString buf s)))"
proof (intro conjI impI)
  assume le: "length s \<le> 50000000"
  show "fst (WriteString buf s) = None"
    by (simp add: WriteString_ok [OF le])
  show "take (length buf) (snd (WriteString buf s)) = buf"
    by (simp add: WriteString_ok [OF le])
  show "ReadString (drop (length buf) (snd (WriteString buf s)) @ rest) = ((s, None), rest)"
    using ReadString_wire [OF le, of rest] by (simp add: WriteString_ok [OF le])
next
  assume gt: "50000000 < length s"
  show "WriteString buf s = (Some (StringTooLarge (length s)), buf)"
    by (rule WriteString_too_large [OF gt])
  then show "fails_with is_StringTooLarge (fst (WriteString buf s))"
    by simp
qed

text \<open>The string of the repository's test, and a string one byte over the cap.\<close>

theorem C2_string_round_trip_witness:
  "fst (WriteString [] ''test123'') = None
 \<and> ReadString (snd (WriteString [] ''test123'')) = ((''test123'', None), [])
 \<and> WriteString [] (replicate 50000001 (CHR ''a'')) = (Some (StringTooLarge 50000001), [])"
  using C2_string_round_trip [of "''test123''" "[]" "[]"]
    C2_string_round_trip [of "replicate 50000001 (CHR ''a'')" "[]" "[]"]
  by simp

text \<open>
  C6 (contract of \<open>ReadString\<close>). For every input stream \<open>ReadString\<close> first reads an
  \<open>int32\<close> length \<open>l\<close>: with fewer than 4 bytes it fails with a truncated read. With \<open>l\<close>
  read, it fails with an invalid length when \<open>l\<close> is negative or greater than
  50,000,000; when \<open>l\<close> is 0 it returns the empty string and has consumed the 4 length
  bytes only; otherwise it reads exactly \<open>l\<close> bytes and returns them as the string, and
  fails with a truncated read when fewer than \<open>l\<close> bytes are left. Every failure returns
  the empty string.
\<close>

theorem C6_ReadString_contract:
  "(length r < 4 \<longrightarrow>
      fst (fst (ReadString r)) = [] \<and> fails_with is_TruncatedRead (snd (fst (ReadString r))))
 \<and> (4 \<le> length r \<longrightarrow>
      (let l = Uint32 (take 4 r); r1 = drop 4 r in
         (sint l < 0 \<or> 50000000 < sint l \<longrightarrow>
            ReadString r = (([], Some (InvalidStringLength l)), r1)
          \<and> fails_with is_InvalidLength (snd (fst (ReadString r))))
       \<and> (l = 0 \<longrightarrow> ReadString r = (([], None), r1))
       \<and> (0 < sint l \<and> sint l \<le> 50000000 \<and> nat (sint l) \<le> length r1 \<longrightarrow>
            ReadString r = ((string_of_bytes (take (nat (sint l)) r1), None), drop (nat (sint l)) r1))
       \<and> (0 < sint l \<and> sint l \<le> 50000000 \<and> length r1 < nat (sint l) \<longrightarrow>
            fst (fst (ReadString r)) = []
          \<and> fails_with is_TruncatedRead (snd (fst (ReadString r))))))"
proof (intro conjI impI)
  assume "length r < 4"
  then show "fst (fst (ReadString r)) = []"
    and "fails_with is_TruncatedRead (snd (fst (ReadString r)))"
    by (simp_all add: ReadString_def readInt32_short)
next
  assume len: "4 \<le> length r"
  show "let l = Uint32 (take 4 r); r1 = drop 4 r in
         (sint l < 0 \<or> 50000000 < sint l \<longrightarrow>
            ReadString r = (([], Some (InvalidStringLength l)), r1)
          \<and> fails_with is_InvalidLength (snd (fst (ReadString r))))
       \<and> (l = 0 \<longrightarrow> ReadString r = (([], None), r1))
       \<and> (0 < sint l \<and> sint l \<le> 50000000 \<and> nat (sint l) \<le> length r1 \<longrightarrow>
            ReadString r = ((string_of_bytes (take (nat (sint l)) r1), None), drop (nat (sint l)) r1))
       \<and> (0 < sint l \<and> sint l \<le> 50000000 \<and> length r1 < nat (sint l) \<longrightarrow>
            fst (fst (ReadString r)) = []
          \<and> fails_with is_TruncatedRead (snd (fst (ReadString r))))"
    unfolding Let_def
    by (auto simp: ReadString_def readInt32_enough [OF len] maxStringLen_def ReadFull_def)
qed

text \<open>One stream for each case: too short for the length, a negative length, a length
  one over the cap, length 0, a complete string, and a string cut short.\<close>

theorem C6_ReadString_contract_witness:
  "fst (fst (ReadString [1, 0, 0])) = []
 \<and> fails_with is_TruncatedRead (snd (fst (ReadString [1, 0, 0])))
 \<and> ReadString [255, 255, 255, 255, 9] = (([], Some (InvalidStringLength (- 1))), [9])
 \<and> ReadString [129, 240, 250, 2, 9] = (([], Some (InvalidStringLength 50000001)), [9])
 \<and> ReadString [0, 0, 0, 0, 9] = (([], None), [9])
 \<and> ReadString [2, 0, 0, 0, 104, 105, 9] = ((''hi'', None), [9])
 \<and> fst (fst (ReadString [2, 0, 0, 0, 104])) = []
 \<and> fails_with is_TruncatedRead (snd (fst (ReadString [2, 0, 0, 0, 104])))"
  using C6_ReadString_contract [of "[1, 0, 0]"]
    C6_ReadString_contract [of "[255, 255, 255, 255, 9]"]
    C6_ReadString_contract [of "[129, 240, 250, 2, 9]"]
    C6_ReadString_contract [of "[0, 0, 0, 0, 9]"]
    C6_ReadString_contract [of "[2, 0, 0, 0, 104, 105, 9]"]
    C6_ReadString_contract [of "[2, 0, 0, 0, 104]"]
  by (simp add: Uint32_def string_of_bytes_def char_of_byte_def char_of_def bit_0 Let_def)

subsection \<open>Typed messages\<close>

text \<open>
  C7 (per-type fidelity). Each typed decoder, applied to the payload of the frame its
  encoder made, returns the original field values with no error and leaves nothing
  unread, provided every string field has at most 50,000,000 bytes and the chunk at
  most 104,857,600 bytes: \<open>DecodeHello\<close> returns the username given to \<open>EncodeHello\<close>,
  \<open>DecodeFileAdvert\<close> the file id, name and size given to \<open>EncodeFileAdvert\<close>,
  \<open>DecodeGetFile\<close> the transfer id, file id and offset given to \<open>EncodeGetFile\<close>, and
  \<open>DecodeFileChunk\<close> the transfer id, the offset and the bytes of the chunk given to
  \<open>EncodeFileChunk\<close> (the \<open>nil\<close> slice for a chunk without bytes).
\<close>

theorem C7_per_type_fidelity:
  "(length username \<le> 50000000 \<longrightarrow>
      DecodeHello (frame_payload (EncodeHello username)) = ((username, None), []))
 \<and> (length fileID \<le> 50000000 \<and> length name \<le> 50000000 \<longrightarrow>
      DecodeFileAdvert (frame_payload (EncodeFileAdvert fileID name size'))
        = ((fileID, name, size', None), []))
 \<and> (length transferID \<le> 50000000 \<and> length fileID' \<le> 50000000 \<longrightarrow>
      DecodeGetFile (frame_payload (EncodeGetFile transferID fileID' offset))
        = ((transferID, fileID', offset, None), []))
 \<and> (length transferID' \<le> 50000000 \<and> len chunk \<le> 104857600 \<longrightarrow>
      DecodeFileChunk (frame_payload (EncodeFileChunk transferID' offset' chunk))
        = ((transferID', offset', if len chunk = 0 then None else Some (elems chunk), None), [])
    \<and> bytes_Equal (if len chunk = 0 then None else Some (elems chunk)) chunk)"
proof (intro conjI impI)
  assume "length username \<le> 50000000"
  then show "DecodeHello (frame_payload (EncodeHello username)) = ((username, None), [])"
    using DecodeHello_wire [of username "[]"] by (simp add: EncodeHello_payload)
next
  assume "length fileID \<le> 50000000 \<and> length name \<le> 50000000"
  then show "DecodeFileAdvert (frame_payload (EncodeFileAdvert fileID name size'))
        = ((fileID, name, size', None), [])"
    using DecodeFileAdvert_wire [of fileID name size' "[]"]
    by (simp add: EncodeFileAdvert_payload)
next
  assume "length transferID \<le> 50000000 \<and> length fileID' \<le> 50000000"
  then show "DecodeGetFile (frame_payload (EncodeGetFile transferID fileID' offset))
        = ((transferID, fileID', offset, None), [])"
    using DecodeGetFile_wire [of transferID fileID' offset "[]"]
    by (simp add: EncodeGetFile_payload)
next
  assume a: "length transferID' \<le> 50000000 \<and> len chunk \<le> 104857600"
  then have tid: "length transferID' \<le> 50000000" and lt: "len chunk < 2 ^ 31"
    by simp_all
  have sl: "sint (word_of_nat (len chunk) :: int32) = int (len chunk)"
    by (rule sint_of_nat32 [OF lt])
  show "DecodeFileChunk (frame_payload (EncodeFileChunk transferID' offset' chunk))
        = ((transferID', offset', if len chunk = 0 then None else Some (elems chunk), None), [])"
  proof (cases "len chunk = 0")
    case True
    then have "elems chunk = []" by (simp add: elems_empty_iff)
    with True DecodeFileChunk_wire [OF tid, of offset' 0 "[]"] show ?thesis
      by (simp add: EncodeFileChunk_payload [OF tid])
  next
    case False
    then have ne: "elems chunk \<noteq> []" by (simp add: elems_empty_iff)
    have nz: "(word_of_nat (len chunk) :: int32) \<noteq> 0"
      using sl False by force
    from False a nz ReadFull_prefix [OF ne, of "[]"]
      DecodeFileChunk_wire [OF tid, of offset' "word_of_nat (len chunk)" "elems chunk"]
    show ?thesis
      by (simp add: EncodeFileChunk_payload [OF tid] sl length_elems)
  qed
  show "bytes_Equal (if len chunk = 0 then None else Some (elems chunk)) chunk"
    using elems_empty_iff [of chunk] by (auto simp: bytes_Equal_def elems_simps)
qed

text \<open>The four examples the specification lists.\<close>

theorem C7_per_type_fidelity_witness:
  "DecodeHello (frame_payload (EncodeHello ''alice'')) = ((''alice'', None), [])
 \<and> DecodeFileAdvert (frame_payload (EncodeFileAdvert ''id1'' ''a.txt'' 42))
      = ((''id1'', ''a.txt'', 42, None), [])
 \<and> DecodeGetFile (frame_payload (EncodeGetFile ''tx'' ''f'' 99)) = ((''tx'', ''f'', 99, None), [])
 \<and> DecodeFileChunk (frame_payload (EncodeFileChunk ''tx'' 7 (Some [1, 2, 3])))
      = ((''tx'', 7, Some [1, 2, 3], None), [])"
  using C7_per_type_fidelity [of "''alice''" "''id1''" "''a.txt''" 42 "''tx''" "''f''" 99
      "''tx''" "Some [1, 2, 3]" 7]
  by (simp add: len_simps elems_simps)

text \<open>
  The bound on the strings is needed: the encoders discard the error of \<open>WriteString\<close>,
  so for a username of 50,000,001 bytes \<open>EncodeHello\<close> makes a frame with no payload,
  and \<open>DecodeHello\<close> of that payload fails with \<open>io.EOF\<close>.
\<close>

theorem C7_counterexample:
  "length (replicate 50000001 (CHR ''a'')) = 50000001
 \<and> EncodeHello (replicate 50000001 (CHR ''a'')) = PackMessage MsgHello None
 \<and> DecodeHello (frame_payload (EncodeHello (replicate 50000001 (CHR ''a''))))
      = (([], Some io_EOF), [])"
  by (simp add: EncodeHello_def WriteString_too_large Buffer_Bytes_def frame_payload_PackMessage
      elems_simps DecodeHello_def NewReader_def ReadString_def readInt32_short)

text \<open>
  C3 (chunk length cap when decoding). For every FileChunk payload that holds a
  well-formed transfer id string and an offset, followed by a chunk length field that
  is negative or greater than 104,857,600, \<open>DecodeFileChunk\<close> fails with the
  invalid-chunk-length error and returns no field. It does so without making a buffer
  of the declared length: the only buffer made during the call is the one \<open>ReadString\<close>
  made for the transfer id (none when the id is empty), which is not of the declared
  length. And it does so without reading the declared length: whatever follows the
  length field is left in the reader.
\<close>

theorem C3_chunk_length_cap:
  assumes "length transferID \<le> 50000000"
    and "sint chLen < 0 \<or> 104857600 < sint chLen"
  shows "DecodeFileChunk_alloc (Some (snd (WriteString [] transferID) @ PutUint64 offset
            @ PutUint32 chLen @ rest)) h
           = ((([], 0, None, Some (InvalidChunkLength chLen)), rest),
              h @ (if transferID = [] then [] else [length transferID]))
       \<and> DecodeFileChunk (Some (snd (WriteString [] transferID) @ PutUint64 offset
            @ PutUint32 chLen @ rest))
           = (([], 0, None, Some (InvalidChunkLength chLen)), rest)
       \<and> fails_with is_InvalidLength (Some (InvalidChunkLength chLen))
       \<and> nat (sint chLen) \<notin> set (if transferID = [] then [] else [length transferID])"
  using assms DecodeFileChunk_wire [OF assms(1), of offset chLen rest]
    DecodeFileChunk_alloc_wire [OF assms(1), of offset chLen rest h]
  by (auto simp: WriteString_ok)

text \<open>A declared length of one over the cap, and a negative one, each followed by
  three bytes that stay unread; the one buffer made is the two bytes of the transfer
  id.\<close>

theorem C3_chunk_length_cap_witness:
  "DecodeFileChunk_alloc (Some (snd (WriteString [] ''tx'') @ PutUint64 7
            @ PutUint32 104857601 @ [1, 2, 3])) []
     = ((([], 0, None, Some (InvalidChunkLength 104857601)), [1, 2, 3]), [2])
 \<and> DecodeFileChunk (Some (snd (WriteString [] ''tx'') @ PutUint64 7
            @ PutUint32 104857601 @ [1, 2, 3]))
     = (([], 0, None, Some (InvalidChunkLength 104857601)), [1, 2, 3])
 \<and> DecodeFileChunk_alloc (Some (snd (WriteString [] ''tx'') @ PutUint64 7
            @ PutUint32 (- 1) @ [1, 2, 3])) []
     = ((([], 0, None, Some (InvalidChunkLength (- 1))), [1, 2, 3]), [2])
 \<and> DecodeFileChunk (Some (snd (WriteString [] ''tx'') @ PutUint64 7
            @ PutUint32 (- 1) @ [1, 2, 3]))
     = (([], 0, None, Some (InvalidChunkLength (- 1))), [1, 2, 3])"
  using C3_chunk_length_cap [of "''tx''" 104857601 7 "[1, 2, 3]" "[]"]
    C3_chunk_length_cap [of "''tx''" "- 1" 7 "[1, 2, 3]" "[]"]
  by simp

text \<open>
  C8 (a chunk of length zero). For every FileChunk payload that holds a well-formed
  transfer id string and an offset, followed by the chunk length 0, \<open>DecodeFileChunk\<close>
  returns the transfer id, the offset, the \<open>nil\<close> chunk and the \<open>nil\<close> error: the result
  differs from every failure by its error value.
\<close>

theorem C8_zero_length_chunk:
  assumes "length transferID \<le> 50000000"
  shows "DecodeFileChunk (Some (snd (WriteString [] transferID) @ PutUint64 offset
            @ PutUint32 0 @ rest))
           = ((transferID, offset, None, None), rest)"
  using DecodeFileChunk_wire [OF assms, of offset 0 rest]
  by (simp add: WriteString_ok [OF assms])

text \<open>The transfer id and offset of the specification's example, with an empty chunk.\<close>

theorem C8_zero_length_chunk_witness:
  "DecodeFileChunk (Some (snd (WriteString [] ''tx'') @ PutUint64 7 @ PutUint32 0))
     = ((''tx'', 7, None, None), [])"
  using C8_zero_length_chunk [of "''tx''" 7 "[]"]
  by simp

text \<open>
  C10 (oversized chunks). \<open>EncodeFileChunk\<close> checks no size and writes the chunk length
  as \<open>int32(len(chunk))\<close>. For every transfer id of at most 50,000,000 bytes and every
  chunk whose length, reduced modulo \<open>2^32\<close>, exceeds 104,857,600 (every chunk of more
  than 104,857,600 and fewer than \<open>2^32\<close> bytes is one), it returns a complete frame, and
  \<open>DecodeFileChunk\<close> of that frame's payload fails with the invalid-chunk-length error
  before reading any byte of the chunk: the round trip fails.
\<close>

theorem C10_oversized_chunk:
  assumes "length transferID \<le> 50000000"
    and "104857600 < len chunk mod 2 ^ 32"
  shows "length (EncodeFileChunk transferID offset chunk)
           = 8 + (4 + length transferID) + 8 + 4 + len chunk
       \<and> DecodeFileChunk (frame_payload (EncodeFileChunk transferID offset chunk))
           = (([], 0, None, Some (InvalidChunkLength (word_of_nat (len chunk)))), elems chunk)
       \<and> fails_with is_InvalidLength (Some (InvalidChunkLength (word_of_nat (len chunk))))"
proof -
  have nz: "len chunk \<noteq> 0" using assms(2) by (cases "len chunk = 0") simp_all
  have "length (EncodeFileChunk transferID offset chunk)
           = 8 + (4 + length transferID) + 8 + 4 + len chunk"
    using nz assms(1)
    by (simp add: EncodeFileChunk_def WriteString_ok writeInt64_def writeInt32_def Let_def
        PackMessage_layout Buffer_Bytes_nonempty PutUint32_nonempty elems_simps len_simps
        length_PutUint32 length_PutUint64 length_bytes_of_string length_elems)
  moreover have "DecodeFileChunk (frame_payload (EncodeFileChunk transferID offset chunk))
           = (([], 0, None, Some (InvalidChunkLength (word_of_nat (len chunk)))), elems chunk)"
    using sint_of_nat32_over [OF assms(2)]
      DecodeFileChunk_wire [OF assms(1), of offset "word_of_nat (len chunk)" "elems chunk"]
    by (simp add: EncodeFileChunk_payload [OF assms(1)])
  ultimately show ?thesis by simp
qed

text \<open>A chunk one byte over the cap.\<close>

theorem C10_oversized_chunk_witness:
  "DecodeFileChunk (frame_payload (EncodeFileChunk ''tx'' 7 (Some (replicate 104857601 0))))
     = (([], 0, None, Some (InvalidChunkLength 104857601)), replicate 104857601 0)
 \<and> length (EncodeFileChunk ''tx'' 7 (Some (replicate 104857601 0))) = 104857627"
  using C10_oversized_chunk [of "''tx''" "Some (replicate 104857601 0)" 7]
  by (simp add: len_simps elems_simps)

text \<open>
  For a chunk of exactly \<open>2^32\<close> bytes the length field wraps around to 0, and
  \<open>DecodeFileChunk\<close> of the frame's payload succeeds: it returns the \<open>nil\<close> chunk and
  leaves the \<open>2^32\<close> bytes unread.
\<close>

theorem C10_counterexample:
  "len (Some (replicate 4294967296 0)) = 4294967296
 \<and> DecodeFileChunk (frame_payload (EncodeFileChunk ''tx'' 7 (Some (replicate 4294967296 0))))
     = ((''tx'', 7, None, None), replicate 4294967296 0)"
proof -
  have wrap: "(4294967296 :: int32) = 0" by simp
  have "length ''tx'' \<le> 50000000" by simp
  from EncodeFileChunk_payload [OF this, of 7 "Some (replicate 4294967296 0)"]
    DecodeFileChunk_wire [OF this, of 7 0 "replicate 4294967296 0"]
  show ?thesis
    by (simp add: len_simps elems_simps wrap)
qed

end
